theory Spec2Isabelle
  imports Main
begin

section \<open>The store\<close>

text \<open>
  The program keeps everything in one SQLite file, \<^verbatim>\<open>food_waste.db\<close>, and reaches it
  through \<^verbatim>\<open>sqlite3\<close> and \<^verbatim>\<open>pandas\<close>. The store is modelled as far as the program
  uses it: values are NULL, integers and text; a table is its declared columns and its
  rows in insertion order; a database is the list of its tables in the order of the
  schema table. SQLite's own table \<^verbatim>\<open>sqlite_sequence\<close>, where it keeps the largest key
  each \<^verbatim>\<open>AUTOINCREMENT\<close> table has assigned, is one of them.
\<close>

datatype val = Null | IntV int | TextV string

datatype coltype = INTEGER | TEXT | NOTYPE

record coldef =
  cname :: string
  ctype :: coltype
  autoinc :: bool \<comment> \<open>declared \<^verbatim>\<open>INTEGER PRIMARY KEY AUTOINCREMENT\<close>\<close>

record table =
  cols :: "coldef list"
  trows :: "val list list"

type_synonym database = "(string \<times> table) list"

text \<open>
  What the program can raise. All but the last are subclasses of \<^verbatim>\<open>Exception\<close>;
  \<^verbatim>\<open>KeyboardInterrupt\<close> is not, so that \<^verbatim>\<open>except Exception\<close> lets it pass and a bare
  \<^verbatim>\<open>except\<close> catches it.
\<close>

datatype error =
    OperationalError string
  | ProgrammingError string
  | DatabaseError string
  | TypeError string
  | NameError string
  | IndexError string
  | KeyboardInterrupt

fun message :: "error \<Rightarrow> string" where
  "message (OperationalError m) = m"
| "message (ProgrammingError m) = m"
| "message (DatabaseError m) = m"
| "message (TypeError m) = m"
| "message (NameError m) = m"
| "message (IndexError m) = m"
| "message KeyboardInterrupt = []"

fun is_exception :: "error \<Rightarrow> bool" where
  "is_exception KeyboardInterrupt = False"
| "is_exception _ = True"

text \<open>
  A statement as the engine has compiled it. The first five are the statements the
  program's own SQL texts denote, with the names the source spells, which are the names
  its schema declares. \<open>Select\<close> is any other query, given by what it computes: from the
  bound parameters and the store, the columns and rows of its result set, or the error
  it raises. A query does not change the store. \<open>Modify\<close> is any other statement that
  returns no rows, given by the store it leaves or the error it raises, and by whether
  \<^verbatim>\<open>sqlite3\<close> runs it inside a transaction (\<^verbatim>\<open>INSERT\<close>, \<^verbatim>\<open>UPDATE\<close>, \<^verbatim>\<open>DELETE\<close>,
  \<^verbatim>\<open>REPLACE\<close>) or not (\<^verbatim>\<open>CREATE\<close>, \<^verbatim>\<open>DROP\<close> and the rest).
\<close>

datatype stmt =
    CreateTableIfNotExists string "coldef list"
  | SelectAll string
  | SelectDistinct string string \<comment> \<open>column, table\<close>
  | SelectSumGroupBy string string string string \<comment> \<open>key column, summed column, its alias, table\<close>
  | InsertInto string "string list" \<comment> \<open>table, columns; one \<^verbatim>\<open>?\<close> for each column\<close>
  | Select "val list \<Rightarrow> database \<Rightarrow> error + (string list \<times> val list list)"
  | Modify "val list \<Rightarrow> database \<Rightarrow> error + database" bool

record cursor =
  description :: "string list option" \<comment> \<open>\<^verbatim>\<open>None\<close> when the statement has no result set\<close>
  fetched :: "val list list"

fun col_index :: "coldef list \<Rightarrow> string \<Rightarrow> nat option" where
  "col_index [] c = None"
| "col_index (cd # cds) c =
     (if cname cd = c then Some 0
      else (case col_index cds c of None \<Rightarrow> None | Some i \<Rightarrow> Some (Suc i)))"

definition cell :: "val list \<Rightarrow> nat \<Rightarrow> val" where
  "cell r i = (if i < length r then r ! i else Null)"

definition column_vals :: "table \<Rightarrow> nat \<Rightarrow> val list" where
  "column_vals tb i = map (\<lambda>r. cell r i) (trows tb)"

text \<open>
  \<^verbatim>\<open>DISTINCT\<close>: each value once, NULL included. SQL leaves the order open; here it is
  the order of first appearance.
\<close>

definition distinct_vals :: "val list \<Rightarrow> val list" where
  "distinct_vals vs = rev (remdups (rev vs))"

fun int_of :: "val \<Rightarrow> int" where
  "int_of (IntV i) = i"
| "int_of _ = 0"

text \<open>\<^verbatim>\<open>SUM\<close> skips NULL and is NULL when nothing is left.\<close>

definition sum_vals :: "val list \<Rightarrow> val" where
  "sum_vals vs =
     (let ns = filter (\<lambda>v. v \<noteq> Null) vs
      in if ns = [] then Null else IntV (sum_list (map int_of ns)))"

text \<open>
  \<^verbatim>\<open>GROUP BY\<close> with \<^verbatim>\<open>SUM\<close>: one row for each distinct key, with the sum over the
  rows of that key. SQL leaves the order of the groups open; here it is the order of
  first appearance, and no statement below depends on it.
\<close>

definition group_sum :: "table \<Rightarrow> nat \<Rightarrow> nat \<Rightarrow> val list list" where
  "group_sum tb ki qi =
     map (\<lambda>k. [k, sum_vals (map (\<lambda>r. cell r qi) (filter (\<lambda>r. cell r ki = k) (trows tb)))])
       (distinct_vals (column_vals tb ki))"

subsection \<open>Keys and \<^verbatim>\<open>sqlite_sequence\<close>\<close>

text \<open>
  Names that begin with \<^verbatim>\<open>sqlite_\<close> are SQLite's own. Creating the first table with an
  \<^verbatim>\<open>AUTOINCREMENT\<close> key creates \<^verbatim>\<open>sqlite_sequence(name, seq)\<close> next to it; the table
  stays when the tables that caused it are dropped. It gets a row for a table at the
  first insert into it, and loses the row when the table is dropped.
\<close>

definition sqlite_internal :: "string \<Rightarrow> bool" where
  "sqlite_internal n = (take 7 n = ''sqlite_'')"

definition sequence_table :: table where
  "sequence_table =
     \<lparr>cols = [\<lparr>cname = ''name'', ctype = NOTYPE, autoinc = False\<rparr>,
              \<lparr>cname = ''seq'', ctype = NOTYPE, autoinc = False\<rparr>],
      trows = []\<rparr>"

fun seq_find :: "val list list \<Rightarrow> string \<Rightarrow> int option" where
  "seq_find [] t = None"
| "seq_find (r # rs) t = (if cell r 0 = TextV t then Some (int_of (cell r 1)) else seq_find rs t)"

fun seq_put :: "val list list \<Rightarrow> string \<Rightarrow> int \<Rightarrow> val list list" where
  "seq_put [] t k = [[TextV t, IntV k]]"
| "seq_put (r # rs) t k =
     (if cell r 0 = TextV t then [TextV t, IntV k] # rs else r # seq_put rs t k)"

definition seq_of :: "database \<Rightarrow> string \<Rightarrow> int" where
  "seq_of d t =
     (case map_of d ''sqlite_sequence'' of
        None \<Rightarrow> 0
      | Some st \<Rightarrow> (case seq_find (trows st) t of None \<Rightarrow> 0 | Some k \<Rightarrow> k))"

definition put_table :: "database \<Rightarrow> string \<Rightarrow> table \<Rightarrow> database" where
  "put_table d t tb = map (\<lambda>(n, old). if n = t then (n, tb) else (n, old)) d"

definition set_seq :: "database \<Rightarrow> string \<Rightarrow> int \<Rightarrow> database" where
  "set_seq d t k =
     (case map_of d ''sqlite_sequence'' of
        None \<Rightarrow> d
      | Some st \<Rightarrow> put_table d ''sqlite_sequence'' (st\<lparr>trows := seq_put (trows st) t k\<rparr>))"

definition drop_table :: "database \<Rightarrow> string \<Rightarrow> database" where
  "drop_table d t =
     map (\<lambda>(n, tb). if n = ''sqlite_sequence''
                     then (n, tb\<lparr>trows := filter (\<lambda>r. cell r 0 \<noteq> TextV t) (trows tb)\<rparr>)
                     else (n, tb))
       (filter (\<lambda>(n, tb). n \<noteq> t) d)"

fun key_vals :: "coldef list \<Rightarrow> val list \<Rightarrow> int list" where
  "key_vals [] r = []"
| "key_vals (cd # cds) [] = []"
| "key_vals (cd # cds) (v # r) =
     (case v of IntV i \<Rightarrow> (if autoinc cd then [i] else []) | _ \<Rightarrow> []) @ key_vals cds r"

text \<open>
  The key an \<^verbatim>\<open>AUTOINCREMENT\<close> column gets when the insert names no value for it: one
  more than the largest key the table holds or has ever assigned.
\<close>

definition next_id :: "database \<Rightarrow> string \<Rightarrow> table \<Rightarrow> int" where
  "next_id d t tb = 1 + fold max (concat (map (key_vals (cols tb)) (trows tb))) (seq_of d t)"

definition new_row :: "database \<Rightarrow> string \<Rightarrow> table \<Rightarrow> string list \<Rightarrow> val list \<Rightarrow> val list" where
  "new_row d t tb cs ps =
     map (\<lambda>cd. case map_of (zip cs ps) (cname cd) of
                 Some v \<Rightarrow> v
               | None \<Rightarrow> (if autoinc cd then IntV (next_id d t tb) else Null))
       (cols tb)"

definition insert_row :: "database \<Rightarrow> string \<Rightarrow> table \<Rightarrow> val list \<Rightarrow> database" where
  "insert_row d t tb r =
     (let d' = put_table d t (tb\<lparr>trows := trows tb @ [r]\<rparr>)
      in if list_ex autoinc (cols tb)
         then set_seq d' t (fold max (key_vals (cols tb) r) (seq_of d t))
         else d')"

subsection \<open>Running a compiled statement\<close>

fun sqlite_exec :: "stmt \<Rightarrow> val list \<Rightarrow> database \<Rightarrow> error + (cursor \<times> database)" where
  "sqlite_exec (CreateTableIfNotExists t cds) ps d =
     (if ps \<noteq> [] then Inl (ProgrammingError ''Incorrect number of bindings supplied'')
      else if sqlite_internal t
      then Inl (OperationalError (''object name reserved for internal use: '' @ t))
      else Inr (\<lparr>description = None, fetched = []\<rparr>,
                (case map_of d t of
                   Some tb \<Rightarrow> d
                 | None \<Rightarrow>
                     d @ [(t, \<lparr>cols = cds, trows = []\<rparr>)]
                       @ (if list_ex autoinc cds \<and> map_of d ''sqlite_sequence'' = None
                          then [(''sqlite_sequence'', sequence_table)] else []))))"
| "sqlite_exec (SelectAll t) ps d =
     (if ps \<noteq> [] then Inl (ProgrammingError ''Incorrect number of bindings supplied'')
      else (case map_of d t of
              None \<Rightarrow> Inl (OperationalError (''no such table: '' @ t))
            | Some tb \<Rightarrow>
                Inr (\<lparr>description = Some (map cname (cols tb)), fetched = trows tb\<rparr>, d)))"
| "sqlite_exec (SelectDistinct c t) ps d =
     (if ps \<noteq> [] then Inl (ProgrammingError ''Incorrect number of bindings supplied'')
      else (case map_of d t of
              None \<Rightarrow> Inl (OperationalError (''no such table: '' @ t))
            | Some tb \<Rightarrow>
                (case col_index (cols tb) c of
                   None \<Rightarrow> Inl (OperationalError (''no such column: '' @ c))
                 | Some i \<Rightarrow>
                     Inr (\<lparr>description = Some [c],
                           fetched = map (\<lambda>v. [v]) (distinct_vals (column_vals tb i))\<rparr>, d))))"
| "sqlite_exec (SelectSumGroupBy k q a t) ps d =
     (if ps \<noteq> [] then Inl (ProgrammingError ''Incorrect number of bindings supplied'')
      else (case map_of d t of
              None \<Rightarrow> Inl (OperationalError (''no such table: '' @ t))
            | Some tb \<Rightarrow>
                (case col_index (cols tb) k of
                   None \<Rightarrow> Inl (OperationalError (''no such column: '' @ k))
                 | Some ki \<Rightarrow>
                     (case col_index (cols tb) q of
                        None \<Rightarrow> Inl (OperationalError (''no such column: '' @ q))
                      | Some qi \<Rightarrow>
                          Inr (\<lparr>description = Some [k, a], fetched = group_sum tb ki qi\<rparr>, d)))))"
| "sqlite_exec (InsertInto t cs) ps d =
     (case map_of d t of
        None \<Rightarrow> Inl (OperationalError (''no such table: '' @ t))
      | Some tb \<Rightarrow>
          (if \<not> list_all (\<lambda>c. col_index (cols tb) c \<noteq> None) cs
           then Inl (OperationalError ''table has no such column'')
           else if length ps \<noteq> length cs
           then Inl (ProgrammingError ''Incorrect number of bindings supplied'')
           else Inr (\<lparr>description = None, fetched = []\<rparr>,
                     insert_row d t tb (new_row d t tb cs ps))))"
| "sqlite_exec (Select f) ps d =
     (case f ps d of
        Inl e \<Rightarrow> Inl e
      | Inr (cs, rows) \<Rightarrow> Inr (\<lparr>description = Some cs, fetched = rows\<rparr>, d))"
| "sqlite_exec (Modify g tx) ps d =
     (case g ps d of
        Inl e \<Rightarrow> Inl e
      | Inr d' \<Rightarrow> Inr (\<lparr>description = None, fetched = []\<rparr>, d'))"

text \<open>
  With the module's default isolation level, \<^verbatim>\<open>sqlite3\<close> opens a transaction before an
  \<^verbatim>\<open>INSERT\<close>, and the change is kept only by \<^verbatim>\<open>commit\<close>; a \<^verbatim>\<open>CREATE TABLE\<close> takes
  effect at once.
\<close>

fun opens_transaction :: "stmt \<Rightarrow> bool" where
  "opens_transaction (InsertInto t cs) = True"
| "opens_transaction (Modify g tx) = tx"
| "opens_transaction _ = False"

text \<open>The statements that only read.\<close>

fun is_read :: "stmt \<Rightarrow> bool" where
  "is_read (SelectAll t) = True"
| "is_read (SelectDistinct c t) = True"
| "is_read (SelectSumGroupBy k s a t) = True"
| "is_read (Select f) = True"
| "is_read _ = False"

section \<open>The process and its surroundings\<close>

text \<open>
  What the program can change: the store file (absent before the first run), the data
  directory, the connections it has opened and not closed, and the page it has rendered
  so far.
\<close>

record dataframe =
  df_cols :: "string list"
  df_rows :: "val list list"

datatype widget =
    Title string
  | Header string
  | Write string
  | Dataframe dataframe
  | ErrorBox string
  | Warning string
  | Success string

record world =
  store :: "database option" \<comment> \<open>\<^verbatim>\<open>None\<close>: the file \<^verbatim>\<open>DB_NAME\<close> does not exist\<close>
  data_dir :: bool \<comment> \<open>whether \<^verbatim>\<open>DATA_DIR\<close> exists\<close>
  open_conns :: nat
  page :: "widget list"

definition render :: "widget \<Rightarrow> world \<Rightarrow> world" where
  "render x w = w\<lparr>page := page w @ [x]\<rparr>"

text \<open>\<^verbatim>\<open>sqlite3.connect\<close> creates an empty database file when there is none.\<close>

definition database_of :: "world \<Rightarrow> database" where
  "database_of w = (case store w of None \<Rightarrow> [] | Some d \<Rightarrow> d)"

definition connect :: "world \<Rightarrow> world" where
  "connect w = w\<lparr>store := Some (database_of w), open_conns := Suc (open_conns w)\<rparr>"

definition close_conn :: "world \<Rightarrow> world" where
  "close_conn w = w\<lparr>open_conns := open_conns w - 1\<rparr>"

subsection \<open>pandas\<close>

definition quoted :: "string \<Rightarrow> string" where
  "quoted s = [CHR 0x27] @ s @ [CHR 0x27]"

text \<open>
  \<^verbatim>\<open>pd.read_sql\<close> on a connection, given the SQL text and the statement it compiles to:
  run the statement and build the frame from the cursor's description. An
  \<^verbatim>\<open>Exception\<close> of the engine comes back as pandas' \<^verbatim>\<open>DatabaseError\<close>, whose message
  quotes the text and carries the engine's message. A statement without a result set
  has no description, and building the column list from it raises \<^verbatim>\<open>TypeError\<close>.
  pandas never commits: a change made inside a transaction is lost.
\<close>

definition execution_failed :: "string \<Rightarrow> error \<Rightarrow> error" where
  "execution_failed sql e =
     (if is_exception e
      then DatabaseError (''Execution failed on sql '' @ quoted sql @ '': '' @ message e)
      else e)"

definition read_sql :: "string \<Rightarrow> stmt \<Rightarrow> world \<Rightarrow> (error + dataframe) \<times> world" where
  "read_sql sql query w =
     (case sqlite_exec query [] (database_of w) of
        Inl e \<Rightarrow> (Inl (execution_failed sql e), w)
      | Inr (cur, d') \<Rightarrow>
          (let w' = (if opens_transaction query then w else w\<lparr>store := Some d'\<rparr>)
           in case description cur of
                None \<Rightarrow> (Inl (TypeError (quoted ''NoneType'' @ '' object is not iterable'')), w')
              | Some cs \<Rightarrow> (Inr \<lparr>df_cols = cs, df_rows = fetched cur\<rparr>, w')))"

text \<open>
  A text that does not come from the source is compiled by the engine before anything
  runs: SQLite parses it and resolves its names against the schema of the store. What
  SQLite accepts, and how it resolves names (without regard to case, with \<^verbatim>\<open>rowid\<close>
  and its own tables), is not part of the program: \<open>prepare\<close> stands for it, giving for
  a text and a store the statement the text denotes or the error it is rejected with.
\<close>

type_synonym parser = "string \<Rightarrow> database \<Rightarrow> error + stmt"

definition read_sql_query :: "parser \<Rightarrow> string \<Rightarrow> world \<Rightarrow> (error + dataframe) \<times> world" where
  "read_sql_query prepare sql w =
     (case prepare sql (database_of w) of
        Inl e \<Rightarrow> (Inl (execution_failed sql e), w)
      | Inr query \<Rightarrow> read_sql sql query w)"

text \<open>
  \<^verbatim>\<open>DataFrame.to_sql(name, conn, if_exists="replace", index=False)\<close>: an existing table
  of that name is dropped, a table is created from the frame (a column of integers as
  \<^verbatim>\<open>INTEGER\<close>, any other as \<^verbatim>\<open>TEXT\<close>, no key and no constraint), and the frame's rows are
  inserted.
\<close>

definition sql_type :: "val list \<Rightarrow> coltype" where
  "sql_type vs = (if list_all (\<lambda>v. case v of IntV i \<Rightarrow> True | _ \<Rightarrow> False) vs then INTEGER else TEXT)"

definition frame_schema :: "dataframe \<Rightarrow> coldef list" where
  "frame_schema df =
     map (\<lambda>(i, c). \<lparr>cname = c, ctype = sql_type (map (\<lambda>r. cell r i) (df_rows df)), autoinc = False\<rparr>)
       (enumerate 0 (df_cols df))"

definition to_sql_replace :: "string \<Rightarrow> dataframe \<Rightarrow> world \<Rightarrow> world" where
  "to_sql_replace name df w =
     w\<lparr>store := Some (drop_table (database_of w) name
                       @ [(name, \<lparr>cols = frame_schema df, trows = df_rows df\<rparr>)])\<rparr>"

section \<open>Utility functions\<close>

definition execute_query :: "stmt \<Rightarrow> val list \<Rightarrow> world \<Rightarrow> (error + val list list) \<times> world" where
  "execute_query query params w =
     (let conn = connect w in
      case (if params \<noteq> [] then sqlite_exec query params (database_of conn)
            else sqlite_exec query [] (database_of conn)) of
        Inl e \<Rightarrow> (Inl e, conn)
      | Inr (cur, d') \<Rightarrow> (Inr (fetched cur), close_conn (conn\<lparr>store := Some d'\<rparr>)))"

text \<open>
  The same function when its query is a text built at run time: \<^verbatim>\<open>cursor.execute\<close>
  compiles the text on the open connection and raises what the engine rejects it with.
\<close>

definition execute_query_sql ::
  "parser \<Rightarrow> string \<Rightarrow> val list \<Rightarrow> world \<Rightarrow> (error + val list list) \<times> world" where
  "execute_query_sql prepare sql params w =
     (case prepare sql (database_of (connect w)) of
        Inl e \<Rightarrow> (Inl e, connect w)
      | Inr query \<Rightarrow> execute_query query params w)"

text \<open>\<^verbatim>\<open>[r[0] for r in results]\<close>; indexing an empty row raises.\<close>

fun first_cells :: "val list list \<Rightarrow> error + val list" where
  "first_cells [] = Inr []"
| "first_cells ([] # rs) = Inl (IndexError ''tuple index out of range'')"
| "first_cells ((v # r) # rs) = (case first_cells rs of Inl e \<Rightarrow> Inl e | Inr vs \<Rightarrow> Inr (v # vs))"

text \<open>
  \<^verbatim>\<open>get_unique_values\<close> splices its two arguments into the query text, so what the
  query means is the engine's to say. First the body of the \<^verbatim>\<open>try\<close>, then the function
  with its bare \<^verbatim>\<open>except\<close>, for any engine.
\<close>

definition distinct_query :: "string \<Rightarrow> string \<Rightarrow> string" where
  "distinct_query tbl column = ''SELECT DISTINCT '' @ column @ '' FROM '' @ tbl"

definition get_unique_values_try ::
  "parser \<Rightarrow> string \<Rightarrow> string \<Rightarrow> world \<Rightarrow> (error + val list) \<times> world" where
  "get_unique_values_try prepare tbl column w =
     (case execute_query_sql prepare (distinct_query tbl column) [] w of
        (Inl e, w') \<Rightarrow> (Inl e, w')
      | (Inr results, w') \<Rightarrow> (first_cells results, w'))"

definition get_unique_values_sql ::
  "parser \<Rightarrow> string \<Rightarrow> string \<Rightarrow> world \<Rightarrow> (error + val list) \<times> world" where
  "get_unique_values_sql prepare tbl column w =
     (case get_unique_values_try prepare tbl column w of
        (Inl e, w') \<Rightarrow> (Inr [], w')
      | (Inr vs, w') \<Rightarrow> (Inr vs, w'))"

text \<open>
  The program calls the function with names it spells as its schema declares them; for
  these the query is the lookup of that column in that table.
\<close>

definition get_unique_values :: "string \<Rightarrow> string \<Rightarrow> world \<Rightarrow> (error + val list) \<times> world" where
  "get_unique_values tbl column w =
     get_unique_values_sql (\<lambda>sql d. Inr (SelectDistinct column tbl)) tbl column w"

section \<open>Database setup\<close>

definition providers_schema :: "coldef list" where
  "providers_schema =
     [\<lparr>cname = ''Provider_ID'', ctype = INTEGER, autoinc = True\<rparr>,
      \<lparr>cname = ''Name'', ctype = TEXT, autoinc = False\<rparr>,
      \<lparr>cname = ''Type'', ctype = TEXT, autoinc = False\<rparr>]"

definition receivers_schema :: "coldef list" where
  "receivers_schema =
     [\<lparr>cname = ''Receiver_ID'', ctype = INTEGER, autoinc = True\<rparr>,
      \<lparr>cname = ''Name'', ctype = TEXT, autoinc = False\<rparr>,
      \<lparr>cname = ''Type'', ctype = TEXT, autoinc = False\<rparr>]"

definition food_listings_schema :: "coldef list" where
  "food_listings_schema =
     [\<lparr>cname = ''Listing_ID'', ctype = INTEGER, autoinc = True\<rparr>,
      \<lparr>cname = ''Food_Name'', ctype = TEXT, autoinc = False\<rparr>,
      \<lparr>cname = ''Quantity'', ctype = INTEGER, autoinc = False\<rparr>,
      \<lparr>cname = ''Expiry_Date'', ctype = TEXT, autoinc = False\<rparr>,
      \<lparr>cname = ''Provider_ID'', ctype = INTEGER, autoinc = False\<rparr>,
      \<lparr>cname = ''Provider_Type'', ctype = TEXT, autoinc = False\<rparr>,
      \<lparr>cname = ''Location'', ctype = TEXT, autoinc = False\<rparr>,
      \<lparr>cname = ''Food_Type'', ctype = TEXT, autoinc = False\<rparr>,
      \<lparr>cname = ''Meal_Type'', ctype = TEXT, autoinc = False\<rparr>]"

definition claims_schema :: "coldef list" where
  "claims_schema =
     [\<lparr>cname = ''Claim_ID'', ctype = INTEGER, autoinc = True\<rparr>,
      \<lparr>cname = ''Listing_ID'', ctype = INTEGER, autoinc = False\<rparr>,
      \<lparr>cname = ''Receiver_ID'', ctype = INTEGER, autoinc = False\<rparr>,
      \<lparr>cname = ''Claim_Date'', ctype = TEXT, autoinc = False\<rparr>]"

fun exec_all :: "stmt list \<Rightarrow> database \<Rightarrow> error + database" where
  "exec_all [] d = Inr d"
| "exec_all (q # qs) d =
     (case sqlite_exec q [] d of Inl e \<Rightarrow> Inl e | Inr (cur, d') \<Rightarrow> exec_all qs d')"

definition create_database :: "world \<Rightarrow> error option \<times> world" where
  "create_database w =
     (let conn = connect w in
      case exec_all
             [CreateTableIfNotExists ''Providers'' providers_schema,
              CreateTableIfNotExists ''Receivers'' receivers_schema,
              CreateTableIfNotExists ''FoodListings'' food_listings_schema,
              CreateTableIfNotExists ''Claims'' claims_schema]
             (database_of conn) of
        Inl e \<Rightarrow> (Some e, conn)
      | Inr d' \<Rightarrow> (None, close_conn (conn\<lparr>store := Some d'\<rparr>)))"

definition providers :: dataframe where
  "providers =
     \<lparr>df_cols = [''Provider_ID'', ''Name'', ''Type''],
      df_rows = [[IntV 1, TextV ''Provider A'', TextV ''Restaurant''],
                 [IntV 2, TextV ''Provider B'', TextV ''Supermarket'']]\<rparr>"

definition receivers :: dataframe where
  "receivers =
     \<lparr>df_cols = [''Receiver_ID'', ''Name'', ''Type''],
      df_rows = [[IntV 1, TextV ''Receiver A'', TextV ''NGO''],
                 [IntV 2, TextV ''Receiver B'', TextV ''Charity'']]\<rparr>"

definition food_listings :: dataframe where
  "food_listings =
     \<lparr>df_cols = [''Listing_ID'', ''Food_Name'', ''Quantity'', ''Expiry_Date'', ''Provider_ID'',
                 ''Provider_Type'', ''Location'', ''Food_Type'', ''Meal_Type''],
      df_rows = [[IntV 1, TextV ''Rice'', IntV 10, TextV ''2025-05-10'', IntV 1,
                  TextV ''Restaurant'', TextV ''Downtown'', TextV ''Grain'', TextV ''Lunch''],
                 [IntV 2, TextV ''Bread'', IntV 5, TextV ''2025-05-12'', IntV 2,
                  TextV ''Supermarket'', TextV ''Uptown'', TextV ''Bakery'', TextV ''Breakfast'']]\<rparr>"

definition claims :: dataframe where
  "claims =
     \<lparr>df_cols = [''Claim_ID'', ''Listing_ID'', ''Receiver_ID'', ''Claim_Date''],
      df_rows = [[IntV 1, IntV 1, IntV 1, TextV ''2025-05-08'']]\<rparr>"

definition load_embedded_data_to_db :: "world \<Rightarrow> error option \<times> world" where
  "load_embedded_data_to_db w =
     (let conn = connect w;
          w1 = to_sql_replace ''Providers'' providers conn;
          w2 = to_sql_replace ''Receivers'' receivers w1;
          w3 = to_sql_replace ''FoodListings'' food_listings w2;
          w4 = to_sql_replace ''Claims'' claims w3
      in (None, close_conn w4))"

section \<open>Display functions\<close>

text \<open>
  The three views below pass \<^verbatim>\<open>sqlite3.connect(DB_NAME)\<close> straight to pandas and never
  call \<^verbatim>\<open>close\<close> on it.
\<close>

definition display_data :: "string \<Rightarrow> world \<Rightarrow> error option \<times> world" where
  "display_data tbl w =
     (case read_sql (''SELECT * FROM '' @ tbl) (SelectAll tbl) (connect w) of
        (Inl e, w') \<Rightarrow> (Some e, w')
      | (Inr df, w') \<Rightarrow> (None, render (Dataframe df) w'))"

definition display_food_listings :: "world \<Rightarrow> error option \<times> world" where
  "display_food_listings w =
     (case read_sql ''SELECT * FROM FoodListings'' (SelectAll ''FoodListings'')
             (connect (render (Header ''Food Listings'') w)) of
        (Inl e, w') \<Rightarrow> (Some e, w')
      | (Inr df, w') \<Rightarrow> (None, render (Dataframe df) w'))"

text \<open>
  \<open>query\<close> is the content of the text area and \<open>execute\<close> whether the button was
  pressed. \<^verbatim>\<open>except Exception\<close> puts every \<^verbatim>\<open>Exception\<close> of the \<^verbatim>\<open>try\<close> in the error
  box.
\<close>

definition display_sql_queries ::
  "parser \<Rightarrow> string \<Rightarrow> bool \<Rightarrow> world \<Rightarrow> error option \<times> world" where
  "display_sql_queries prepare query execute w =
     (let w0 = render (Header ''Run SQL Query'') w in
      if execute then
        (case read_sql_query prepare query (connect w0) of
           (Inr df, w') \<Rightarrow> (None, render (Dataframe df) w')
         | (Inl e, w') \<Rightarrow>
             (if is_exception e then (None, render (ErrorBox (''Error: '' @ message e)) w')
              else (Some e, w')))
      else (None, w0))"

text \<open>
  The module imports \<^verbatim>\<open>os\<close>, \<^verbatim>\<open>sqlite3\<close>, \<^verbatim>\<open>datetime\<close>, \<^verbatim>\<open>pd\<close>, \<^verbatim>\<open>st\<close> and \<^verbatim>\<open>sns\<close>, and
  binds no name \<^verbatim>\<open>plt\<close>: with a frame that is not empty, control reaches
  \<^verbatim>\<open>plt.figure(figsize=(10, 6))\<close>, which raises \<^verbatim>\<open>NameError\<close> before anything is drawn.
\<close>

definition display_food_wastage_by_type_chart :: "world \<Rightarrow> error option \<times> world" where
  "display_food_wastage_by_type_chart w =
     (case read_sql ''SELECT Food_Type, SUM(Quantity) as Total FROM FoodListings GROUP BY Food_Type''
             (SelectSumGroupBy ''Food_Type'' ''Quantity'' ''Total'' ''FoodListings'') (connect w) of
        (Inl e, w') \<Rightarrow> (Some e, w')
      | (Inr df, w') \<Rightarrow>
          (let w'' = close_conn w' in
           if df_rows df = [] then (None, render (Warning ''No data available.'') w'')
           else (Some (NameError ''name plt is not defined''), w'')))"

section \<open>Adding a listing\<close>

text \<open>
  What the user entered in the form: the texts, the number (the widget admits none
  below 1), the date as its ISO text, the position picked in each select box, and
  whether the button was pressed. A select box returns the option picked, or \<^verbatim>\<open>None\<close>
  when it has no option to offer; \<^verbatim>\<open>None\<close> is bound as NULL.
\<close>

record listing_form =
  food_name :: string
  quantity :: int
  expiry_date :: string
  provider_pick :: nat
  provider_type_pick :: nat
  location :: string
  food_type_pick :: nat
  meal_type_pick :: nat
  add_listing :: bool

definition selectbox :: "'a list \<Rightarrow> nat \<Rightarrow> 'a option" where
  "selectbox options i = (if i < length options then Some (options ! i) else None)"

definition bound :: "val option \<Rightarrow> val" where
  "bound x = (case x of None \<Rightarrow> Null | Some v \<Rightarrow> v)"

text \<open>Python's \<^verbatim>\<open>xs or ys\<close> on lists: \<^verbatim>\<open>ys\<close> exactly when \<^verbatim>\<open>xs\<close> is empty.\<close>

definition py_or :: "'a list \<Rightarrow> 'a list \<Rightarrow> 'a list" where
  "py_or xs ys = (if xs = [] then ys else xs)"

definition food_type_options :: "world \<Rightarrow> (error + val list) \<times> world" where
  "food_type_options w =
     (case get_unique_values ''FoodListings'' ''Food_Type'' w of
        (Inl e, w') \<Rightarrow> (Inl e, w')
      | (Inr vs, w') \<Rightarrow> (Inr (py_or vs [TextV ''Vegetable'', TextV ''Grain'']), w'))"

definition meal_type_options :: "world \<Rightarrow> (error + val list) \<times> world" where
  "meal_type_options w =
     (case get_unique_values ''FoodListings'' ''Meal_Type'' w of
        (Inl e, w') \<Rightarrow> (Inl e, w')
      | (Inr vs, w') \<Rightarrow> (Inr (py_or vs [TextV ''Breakfast'', TextV ''Lunch'', TextV ''Dinner'']), w'))"

definition insert_columns :: "string list" where
  "insert_columns =
     [''Food_Name'', ''Quantity'', ''Expiry_Date'', ''Provider_ID'', ''Provider_Type'',
      ''Location'', ''Food_Type'', ''Meal_Type'']"

definition add_food_listing :: "listing_form \<Rightarrow> world \<Rightarrow> error option \<times> world" where
  "add_food_listing form w =
     (case get_unique_values ''Providers'' ''Provider_ID'' (render (Header ''Add Food Listing'') w) of
        (Inl e, w1) \<Rightarrow> (Some e, w1)
      | (Inr provider_ids, w1) \<Rightarrow>
     (case get_unique_values ''Providers'' ''Type'' w1 of
        (Inl e, w2) \<Rightarrow> (Some e, w2)
      | (Inr provider_types, w2) \<Rightarrow>
     (case food_type_options w2 of
        (Inl e, w3) \<Rightarrow> (Some e, w3)
      | (Inr food_types, w3) \<Rightarrow>
     (case meal_type_options w3 of
        (Inl e, w4) \<Rightarrow> (Some e, w4)
      | (Inr meal_types, w4) \<Rightarrow>
          (if add_listing form then
             (case execute_query (InsertInto ''FoodListings'' insert_columns)
                     [TextV (food_name form), IntV (quantity form), TextV (expiry_date form),
                      bound (selectbox provider_ids (provider_pick form)),
                      bound (selectbox provider_types (provider_type_pick form)),
                      TextV (location form),
                      bound (selectbox food_types (food_type_pick form)),
                      bound (selectbox meal_types (meal_type_pick form))] w4 of
                (Inl e, w5) \<Rightarrow> (Some e, w5)
              | (Inr results, w5) \<Rightarrow> (None, render (Success ''Food listing added successfully!'') w5))
           else (None, w4))))))"

section \<open>Main\<close>

text \<open>The first lines of \<^verbatim>\<open>main\<close>: the store is set up only when its file is absent.\<close>

definition bootstrap :: "world \<Rightarrow> error option \<times> world" where
  "bootstrap w =
     (if store w = None then
        (case create_database w of
           (Some e, w1) \<Rightarrow> (Some e, w1)
         | (None, w1) \<Rightarrow>
             load_embedded_data_to_db (if \<not> data_dir w1 then w1\<lparr>data_dir := True\<rparr> else w1))
      else (None, w))"

datatype choice =
    Home
  | ViewData nat
  | AddFoodListing listing_form
  | FoodListings
  | SQLQueries string bool
  | FoodWastageChart

definition view_tables :: "string list" where
  "view_tables = [''Providers'', ''Receivers'', ''FoodListings'', ''Claims'']"

definition main :: "parser \<Rightarrow> choice \<Rightarrow> world \<Rightarrow> error option \<times> world" where
  "main prepare c w =
     (case bootstrap (render (Title ''Local Food Wastage Management System'') w) of
        (Some e, w1) \<Rightarrow> (Some e, w1)
      | (None, w1) \<Rightarrow>
          (case c of
             Home \<Rightarrow> (None, render (Write ''Welcome to the Local Food Wastage Management System.'') w1)
           | ViewData i \<Rightarrow>
               display_data (case selectbox view_tables i of None \<Rightarrow> ''None'' | Some t \<Rightarrow> t) w1
           | AddFoodListing form \<Rightarrow> add_food_listing form w1
           | FoodListings \<Rightarrow> display_food_listings w1
           | SQLQueries query execute \<Rightarrow> display_sql_queries prepare query execute w1
           | FoodWastageChart \<Rightarrow> display_food_wastage_by_type_chart w1))"

text \<open>The world before the first run: no store file, nothing open, nothing rendered.\<close>

definition first_run :: world where
  "first_run = \<lparr>store = None, data_dir = False, open_conns = 0, page = []\<rparr>"

section \<open>Reference points for the statements\<close>

text \<open>The store as the seed frames define it, table by table.\<close>

definition seeded :: database where
  "seeded =
     [(''sqlite_sequence'', sequence_table),
      (''Providers'', \<lparr>cols = frame_schema providers, trows = df_rows providers\<rparr>),
      (''Receivers'', \<lparr>cols = frame_schema receivers, trows = df_rows receivers\<rparr>),
      (''FoodListings'', \<lparr>cols = frame_schema food_listings, trows = df_rows food_listings\<rparr>),
      (''Claims'', \<lparr>cols = frame_schema claims, trows = df_rows claims\<rparr>)]"

definition table_rows :: "world \<Rightarrow> string \<Rightarrow> val list list" where
  "table_rows w t = (case map_of (database_of w) t of None \<Rightarrow> [] | Some tb \<Rightarrow> trows tb)"

text \<open>A filled-in form, for concrete runs.\<close>

definition apple :: listing_form where
  "apple =
     \<lparr>food_name = ''Apple'', quantity = 3, expiry_date = ''2025-06-01'', provider_pick = 0,
      provider_type_pick = 0, location = ''Midtown'', food_type_pick = 0, meal_type_pick = 0,
      add_listing = True\<rparr>"

text \<open>
  Two engines for concrete runs. The first knows three queries, one of them with a
  \<^verbatim>\<open>WHERE\<close> clause and one that spells its names in lower case, and rejects every
  other text; the second stands for a store file that is not a database, which SQLite
  reports with \<^verbatim>\<open>DatabaseError\<close>.
\<close>

definition big_listings :: "val list \<Rightarrow> database \<Rightarrow> error + (string list \<times> val list list)" where
  "big_listings ps d =
     (case map_of d ''FoodListings'' of
        None \<Rightarrow> Inl (OperationalError ''no such table: FoodListings'')
      | Some tb \<Rightarrow>
          Inr ([''Food_Name''],
               map (\<lambda>r. [cell r 1]) (filter (\<lambda>r. 5 < int_of (cell r 2)) (trows tb))))"

definition sample_prepare :: parser where
  "sample_prepare sql d =
     (if sql = ''SELECT * FROM Claims'' then Inr (SelectAll ''Claims'')
      else if sql = ''SELECT Food_Name FROM FoodListings WHERE Quantity > 5''
      then Inr (Select big_listings)
      else if sql = ''SELECT DISTINCT type FROM providers''
      then Inr (SelectDistinct ''Type'' ''Providers'')
      else if sql = ''SELECT DISTINCT Name FROM Donors''
      then Inl (OperationalError ''no such table: Donors'')
      else Inl (OperationalError ''near SELEC: syntax error''))"

definition not_a_database :: parser where
  "not_a_database sql d = Inl (DatabaseError ''file is not a database'')"

section \<open>Facts about the store and the setup\<close>

lemma distinct_vals_set: "set (distinct_vals vs) = set vs"
  by (simp add: distinct_vals_def)

lemma distinct_vals_distinct: "distinct (distinct_vals vs)"
  by (simp add: distinct_vals_def)

lemma distinct_vals_empty: "distinct_vals vs = [] \<longleftrightarrow> vs = []"
  by (metis distinct_vals_set set_empty)

lemma first_cells_singletons: "first_cells (map (\<lambda>v. [v]) vs) = Inr vs"
  by (induction vs) simp_all

lemma fold_max_lower: "a \<le> fold max ks (a::int)"
proof (induction ks arbitrary: a)
  case Nil
  show ?case by simp
next
  case (Cons k ks)
  have "a \<le> max k a" by simp
  also have "max k a \<le> fold max ks (max k a)" by (rule Cons.IH)
  finally show ?case by simp
qed

lemma fold_max_upper: "k \<in> set ks \<Longrightarrow> k \<le> fold max ks (a::int)"
proof (induction ks arbitrary: a)
  case Nil
  then show ?case by simp
next
  case (Cons x ks)
  show ?case
  proof (cases "k = x")
    case True
    have "x \<le> max x a" by simp
    also have "max x a \<le> fold max ks (max x a)" by (rule fold_max_lower)
    finally show ?thesis using True by simp
  next
    case False
    with Cons.prems have "k \<in> set ks" by simp
    then show ?thesis using Cons.IH by simp
  qed
qed

text \<open>The key an \<^verbatim>\<open>AUTOINCREMENT\<close> column assigns is above every key of the table.\<close>

lemma next_id_fresh:
  assumes "r \<in> set (trows tb)" and "k \<in> set (key_vals (cols tb) r)"
  shows "k < next_id d t tb"
proof -
  from assms have "k \<in> set (concat (map (key_vals (cols tb)) (trows tb)))" by auto
  then have "k \<le> fold max (concat (map (key_vals (cols tb)) (trows tb))) (seq_of d t)"
    by (rule fold_max_upper)
  then show ?thesis by (simp add: next_id_def)
qed

lemma read_keeps_store:
  "is_read q \<Longrightarrow> sqlite_exec q ps d = Inr (cur, d') \<Longrightarrow> d' = d \<and> description cur \<noteq> None"
  by (cases q) (auto split: if_splits option.splits sum.splits prod.splits)

lemma read_opens_no_transaction: "is_read q \<Longrightarrow> \<not> opens_transaction q"
  by (cases q) simp_all

lemma database_of_connect: "database_of (connect w) = database_of w"
  by (simp add: connect_def database_of_def)

lemma create_database_fresh:
  "store w = None \<Longrightarrow>
   create_database w =
     (None, w\<lparr>store := Some [(''Providers'', \<lparr>cols = providers_schema, trows = []\<rparr>),
                             (''sqlite_sequence'', sequence_table),
                             (''Receivers'', \<lparr>cols = receivers_schema, trows = []\<rparr>),
                             (''FoodListings'', \<lparr>cols = food_listings_schema, trows = []\<rparr>),
                             (''Claims'', \<lparr>cols = claims_schema, trows = []\<rparr>)]\<rparr>)"
  by (simp add: create_database_def connect_def close_conn_def database_of_def
      sqlite_internal_def providers_schema_def receivers_schema_def food_listings_schema_def
      claims_schema_def)

text \<open>
  The seed write replaces each table, so the schema \<^verbatim>\<open>create_database\<close> declared is gone
  afterwards: no column of the seeded store is a key. \<^verbatim>\<open>sqlite_sequence\<close> stays.
\<close>

lemma load_after_create:
  "store w = Some [(''Providers'', p), (''sqlite_sequence'', sequence_table), (''Receivers'', r),
                   (''FoodListings'', f), (''Claims'', c)] \<Longrightarrow>
   load_embedded_data_to_db w = (None, w\<lparr>store := Some seeded\<rparr>)"
  by (simp add: load_embedded_data_to_db_def to_sql_replace_def drop_table_def connect_def
      close_conn_def database_of_def seeded_def sequence_table_def Let_def)

lemma bootstrap_fresh:
  "store w = None \<Longrightarrow> bootstrap w = (None, w\<lparr>store := Some seeded, data_dir := True\<rparr>)"
  by (simp add: bootstrap_def create_database_fresh load_after_create)

lemma seeded_world:
  "snd (bootstrap first_run) = \<lparr>store = Some seeded, data_dir = True, open_conns = 0, page = []\<rparr>"
  by (simp add: bootstrap_fresh first_run_def)

lemma seeded_has_no_key: "list_all (\<lambda>(n, tb). \<not> list_ex autoinc (cols tb)) seeded"
  by code_simp

text \<open>The helper on names spelled as the schema declares them.\<close>

lemma get_unique_values_found:
  "map_of (database_of w) t = Some tb \<Longrightarrow> col_index (cols tb) c = Some i \<Longrightarrow>
   get_unique_values t c w =
     (Inr (distinct_vals (column_vals tb i)), w\<lparr>store := Some (database_of w)\<rparr>)"
  by (simp add: get_unique_values_def get_unique_values_sql_def get_unique_values_try_def
      execute_query_sql_def execute_query_def connect_def close_conn_def database_of_def
      first_cells_singletons)

section \<open>Adding a listing (C1)\<close>

text \<open>
  Under the schema \<^verbatim>\<open>create_database\<close> declares, the insert gets its key from the
  store: on the tables as created, before the seed write, the first listing has key 1.
\<close>

lemma declared_schema_assigns_key:
  "table_rows (snd (add_food_listing apple (snd (create_database first_run)))) ''FoodListings'' =
     [[IntV 1, TextV ''Apple'', IntV 3, TextV ''2025-06-01'', Null, Null, TextV ''Midtown'',
       TextV ''Vegetable'', TextV ''Breakfast'']]"
  by code_simp

text \<open>
  Claim C1: adding a listing adds exactly one row to FoodListings, its eight fields are
  the submitted values, and its Listing_ID is freshly assigned, not null and different
  from every existing one. On the store the program itself sets up, the first two parts
  hold and the third does not: after the first launch the form adds one row with the
  submitted values, and the row's Listing_ID is NULL.
\<close>

theorem add_listing_after_first_launch_null_id:
  "fst (add_food_listing apple (snd (bootstrap first_run))) = None \<and>
   table_rows (snd (add_food_listing apple (snd (bootstrap first_run)))) ''FoodListings'' =
     table_rows (snd (bootstrap first_run)) ''FoodListings'' @
       [[Null, TextV ''Apple'', IntV 3, TextV ''2025-06-01'', IntV 1, TextV ''Restaurant'',
         TextV ''Midtown'', TextV ''Grain'', TextV ''Lunch'']] \<and>
   table_rows (snd (main sample_prepare (AddFoodListing apple)
                      (snd (main sample_prepare Home first_run)))) ''FoodListings'' =
     [[IntV 1, TextV ''Rice'', IntV 10, TextV ''2025-05-10'', IntV 1, TextV ''Restaurant'',
       TextV ''Downtown'', TextV ''Grain'', TextV ''Lunch''],
      [IntV 2, TextV ''Bread'', IntV 5, TextV ''2025-05-12'', IntV 2, TextV ''Supermarket'',
       TextV ''Uptown'', TextV ''Bakery'', TextV ''Breakfast''],
      [Null, TextV ''Apple'', IntV 3, TextV ''2025-06-01'', IntV 1, TextV ''Restaurant'',
       TextV ''Midtown'', TextV ''Grain'', TextV ''Lunch'']]"
  unfolding seeded_world by code_simp

section \<open>First launch (C2)\<close>

text \<open>
  Claim C2: started without a store file, the program creates exactly the four tables
  Providers, Receivers, FoodListings and Claims, holding exactly the seed rows: two
  providers (1 Provider A, 2 Provider B), two receivers, two listings (1 Rice 10,
  2 Bread 5) and one claim (1, listing 1, receiver 1, 2025-05-08). The store then lists
  five tables: these four and SQLite's own \<^verbatim>\<open>sqlite_sequence\<close>, which is empty; the
  four are all the tables that are not SQLite's own.
\<close>

theorem first_launch_seeds:
  assumes "store w = None"
  shows "fst (bootstrap w) = None \<and>
    (\<exists>d. store (snd (bootstrap w)) = Some d \<and> store (snd (main prepare Home w)) = Some d \<and>
       length d = 5 \<and>
       set (map fst d) =
         {''sqlite_sequence'', ''Providers'', ''Receivers'', ''FoodListings'', ''Claims''} \<and>
       map_of d ''sqlite_sequence'' = Some sequence_table \<and>
       filter (\<lambda>n. \<not> sqlite_internal n) (map fst d) =
         [''Providers'', ''Receivers'', ''FoodListings'', ''Claims''] \<and>
       map (\<lambda>(n, tb). trows tb) (filter (\<lambda>(n, tb). \<not> sqlite_internal n) d) =
         [[[IntV 1, TextV ''Provider A'', TextV ''Restaurant''],
           [IntV 2, TextV ''Provider B'', TextV ''Supermarket'']],
          [[IntV 1, TextV ''Receiver A'', TextV ''NGO''],
           [IntV 2, TextV ''Receiver B'', TextV ''Charity'']],
          [[IntV 1, TextV ''Rice'', IntV 10, TextV ''2025-05-10'', IntV 1,
            TextV ''Restaurant'', TextV ''Downtown'', TextV ''Grain'', TextV ''Lunch''],
           [IntV 2, TextV ''Bread'', IntV 5, TextV ''2025-05-12'', IntV 2,
            TextV ''Supermarket'', TextV ''Uptown'', TextV ''Bakery'', TextV ''Breakfast'']],
          [[IntV 1, IntV 1, IntV 1, TextV ''2025-05-08'']]] \<and>
       map (\<lambda>(n, tb). map cname (cols tb)) (filter (\<lambda>(n, tb). \<not> sqlite_internal n) d) =
         [[''Provider_ID'', ''Name'', ''Type''],
          [''Receiver_ID'', ''Name'', ''Type''],
          [''Listing_ID'', ''Food_Name'', ''Quantity'', ''Expiry_Date'', ''Provider_ID'',
           ''Provider_Type'', ''Location'', ''Food_Type'', ''Meal_Type''],
          [''Claim_ID'', ''Listing_ID'', ''Receiver_ID'', ''Claim_Date'']])"
proof -
  have b: "bootstrap w = (None, w\<lparr>store := Some seeded, data_dir := True\<rparr>)"
    using assms by (rule bootstrap_fresh)
  have m: "store (snd (main prepare Home w)) = Some seeded"
    using assms by (simp add: main_def render_def bootstrap_fresh)
  have s: "length seeded = 5 \<and>
       set (map fst seeded) =
         {''sqlite_sequence'', ''Providers'', ''Receivers'', ''FoodListings'', ''Claims''} \<and>
       map_of seeded ''sqlite_sequence'' = Some sequence_table \<and>
       filter (\<lambda>n. \<not> sqlite_internal n) (map fst seeded) =
         [''Providers'', ''Receivers'', ''FoodListings'', ''Claims'']"
    by (auto simp: seeded_def sqlite_internal_def)
  have r: "map (\<lambda>(n, tb). trows tb) (filter (\<lambda>(n, tb). \<not> sqlite_internal n) seeded) =
         [[[IntV 1, TextV ''Provider A'', TextV ''Restaurant''],
           [IntV 2, TextV ''Provider B'', TextV ''Supermarket'']],
          [[IntV 1, TextV ''Receiver A'', TextV ''NGO''],
           [IntV 2, TextV ''Receiver B'', TextV ''Charity'']],
          [[IntV 1, TextV ''Rice'', IntV 10, TextV ''2025-05-10'', IntV 1,
            TextV ''Restaurant'', TextV ''Downtown'', TextV ''Grain'', TextV ''Lunch''],
           [IntV 2, TextV ''Bread'', IntV 5, TextV ''2025-05-12'', IntV 2,
            TextV ''Supermarket'', TextV ''Uptown'', TextV ''Bakery'', TextV ''Breakfast'']],
          [[IntV 1, IntV 1, IntV 1, TextV ''2025-05-08'']]]"
    by (simp add: seeded_def sqlite_internal_def providers_def receivers_def food_listings_def
        claims_def)
  have c: "map (\<lambda>(n, tb). map cname (cols tb)) (filter (\<lambda>(n, tb). \<not> sqlite_internal n) seeded) =
         [[''Provider_ID'', ''Name'', ''Type''],
          [''Receiver_ID'', ''Name'', ''Type''],
          [''Listing_ID'', ''Food_Name'', ''Quantity'', ''Expiry_Date'', ''Provider_ID'',
           ''Provider_Type'', ''Location'', ''Food_Type'', ''Meal_Type''],
          [''Claim_ID'', ''Listing_ID'', ''Receiver_ID'', ''Claim_Date'']]"
    by (simp add: seeded_def sqlite_internal_def providers_def receivers_def food_listings_def
        claims_def frame_schema_def)
  show ?thesis
    unfolding b using m s r c by (intro conjI exI [of _ seeded]) simp_all
qed

theorem first_launch_seeds_witness:
  "store first_run = None \<and> fst (bootstrap first_run) = None \<and>
   (\<exists>d. store (snd (bootstrap first_run)) = Some d \<and> length d = 5 \<and>
      filter (\<lambda>n. \<not> sqlite_internal n) (map fst d) =
        [''Providers'', ''Receivers'', ''FoodListings'', ''Claims''] \<and>
      length (table_rows (snd (bootstrap first_run)) ''Claims'') = 1)"
proof -
  have h: "store first_run = None" by (simp add: first_run_def)
  have n: "length (table_rows (snd (bootstrap first_run)) ''Claims'') = 1"
    unfolding seeded_world by code_simp
  note launch = first_launch_seeds [OF h, of sample_prepare]
  from launch have f: "fst (bootstrap first_run) = None" by (rule conjunct1)
  from launch obtain d where s: "store (snd (bootstrap first_run)) = Some d"
    and l: "length d = 5"
    and t: "filter (\<lambda>n. \<not> sqlite_internal n) (map fst d) =
        [''Providers'', ''Receivers'', ''FoodListings'', ''Claims'']"
    by (elim conjE exE)
  from s l t n have "\<exists>d. store (snd (bootstrap first_run)) = Some d \<and> length d = 5 \<and>
      filter (\<lambda>n. \<not> sqlite_internal n) (map fst d) =
        [''Providers'', ''Receivers'', ''FoodListings'', ''Claims''] \<and>
      length (table_rows (snd (bootstrap first_run)) ''Claims'') = 1"
    by (intro exI [of _ d] conjI)
  with h f show ?thesis by (intro conjI)
qed

section \<open>The query runner (C3)\<close>

lemma adhoc_rejected:
  assumes "store w = Some d" and "prepare q d = Inl e" and "is_exception e"
  shows "fst (display_sql_queries prepare q True w) = None \<and>
         store (snd (display_sql_queries prepare q True w)) = Some d \<and>
         page (snd (display_sql_queries prepare q True w)) =
           page w @ [Header ''Run SQL Query'',
                     ErrorBox (''Error: Execution failed on sql '' @ quoted q @ '': '' @ message e)]"
  using assms
  by (simp add: display_sql_queries_def read_sql_query_def execution_failed_def connect_def
      render_def database_of_def)

lemma adhoc_read:
  assumes "store w = Some d" and "prepare q d = Inr s" and "is_read s"
    and "sqlite_exec s [] d = Inr (cur, d')"
  shows "\<exists>cs. description cur = Some cs \<and>
           fst (display_sql_queries prepare q True w) = None \<and>
           store (snd (display_sql_queries prepare q True w)) = Some d \<and>
           page (snd (display_sql_queries prepare q True w)) =
             page w @ [Header ''Run SQL Query'',
                       Dataframe \<lparr>df_cols = cs, df_rows = fetched cur\<rparr>]"
proof -
  from assms(3,4) have k: "d' = d" and "description cur \<noteq> None"
    using read_keeps_store by blast+
  then obtain cs where cs: "description cur = Some cs" by auto
  from assms(3) have t: "\<not> opens_transaction s" by (rule read_opens_no_transaction)
  have "fst (display_sql_queries prepare q True w) = None \<and>
        store (snd (display_sql_queries prepare q True w)) = Some d \<and>
        page (snd (display_sql_queries prepare q True w)) =
          page w @ [Header ''Run SQL Query'', Dataframe \<lparr>df_cols = cs, df_rows = fetched cur\<rparr>]"
    using assms k cs t
    by (simp add: display_sql_queries_def read_sql_query_def read_sql_def connect_def
        render_def database_of_def)
  with cs show ?thesis by blast
qed

lemma adhoc_select:
  assumes "store w = Some d" and "prepare q d = Inr (Select f)" and "f [] d = Inr (cs, rows)"
  shows "fst (display_sql_queries prepare q True w) = None \<and>
         store (snd (display_sql_queries prepare q True w)) = Some d \<and>
         page (snd (display_sql_queries prepare q True w)) =
           page w @ [Header ''Run SQL Query'', Dataframe \<lparr>df_cols = cs, df_rows = rows\<rparr>]"
  using assms
  by (simp add: display_sql_queries_def read_sql_query_def read_sql_def connect_def
      render_def database_of_def)

lemma adhoc_read_raises:
  assumes "store w = Some d" and "prepare q d = Inr s" and "sqlite_exec s [] d = Inl e"
    and "is_exception e"
  shows "fst (display_sql_queries prepare q True w) = None \<and>
         store (snd (display_sql_queries prepare q True w)) = Some d \<and>
         page (snd (display_sql_queries prepare q True w)) =
           page w @ [Header ''Run SQL Query'',
                     ErrorBox (''Error: Execution failed on sql '' @ quoted q @ '': '' @ message e)]"
  using assms
  by (simp add: display_sql_queries_def read_sql_query_def read_sql_def execution_failed_def
      connect_def render_def database_of_def)

text \<open>
  Claim C3: for every text given to the query runner, if the engine rejects it as
  invalid, the runner shows an error message and the store's contents are unchanged; if
  it is a valid read statement, the runner shows exactly the rows the store produces
  for it. This holds whatever the engine accepts and whatever a query computes: the
  error box quotes the text and carries the engine's message, a query that the engine
  compiles is shown with the columns and rows of its result set, and in both cases, as
  when the query raises while it runs, the store is as before.
\<close>

theorem adhoc_query_runner:
  assumes "store w = Some d"
  shows "(\<forall>e. prepare q d = Inl e \<and> is_exception e \<longrightarrow>
            fst (display_sql_queries prepare q True w) = None \<and>
            store (snd (display_sql_queries prepare q True w)) = Some d \<and>
            page (snd (display_sql_queries prepare q True w)) =
              page w @ [Header ''Run SQL Query'',
                        ErrorBox (''Error: Execution failed on sql '' @ quoted q @ '': ''
                                    @ message e)]) \<and>
         (\<forall>s cur d'. prepare q d = Inr s \<and> is_read s \<and> sqlite_exec s [] d = Inr (cur, d') \<longrightarrow>
            (\<exists>cs. description cur = Some cs \<and>
               fst (display_sql_queries prepare q True w) = None \<and>
               store (snd (display_sql_queries prepare q True w)) = Some d \<and>
               page (snd (display_sql_queries prepare q True w)) =
                 page w @ [Header ''Run SQL Query'',
                           Dataframe \<lparr>df_cols = cs, df_rows = fetched cur\<rparr>])) \<and>
         (\<forall>f cs rows. prepare q d = Inr (Select f) \<and> f [] d = Inr (cs, rows) \<longrightarrow>
            fst (display_sql_queries prepare q True w) = None \<and>
            store (snd (display_sql_queries prepare q True w)) = Some d \<and>
            page (snd (display_sql_queries prepare q True w)) =
              page w @ [Header ''Run SQL Query'', Dataframe \<lparr>df_cols = cs, df_rows = rows\<rparr>]) \<and>
         (\<forall>s e. prepare q d = Inr s \<and> is_read s \<and> sqlite_exec s [] d = Inl e \<and> is_exception e \<longrightarrow>
            fst (display_sql_queries prepare q True w) = None \<and>
            store (snd (display_sql_queries prepare q True w)) = Some d \<and>
            page (snd (display_sql_queries prepare q True w)) =
              page w @ [Header ''Run SQL Query'',
                        ErrorBox (''Error: Execution failed on sql '' @ quoted q @ '': ''
                                    @ message e)])"
proof (intro conjI)
  show "\<forall>e. prepare q d = Inl e \<and> is_exception e \<longrightarrow>
            fst (display_sql_queries prepare q True w) = None \<and>
            store (snd (display_sql_queries prepare q True w)) = Some d \<and>
            page (snd (display_sql_queries prepare q True w)) =
              page w @ [Header ''Run SQL Query'',
                        ErrorBox (''Error: Execution failed on sql '' @ quoted q @ '': ''
                                    @ message e)]"
    using adhoc_rejected [OF assms] by blast
next
  show "\<forall>s cur d'. prepare q d = Inr s \<and> is_read s \<and> sqlite_exec s [] d = Inr (cur, d') \<longrightarrow>
            (\<exists>cs. description cur = Some cs \<and>
               fst (display_sql_queries prepare q True w) = None \<and>
               store (snd (display_sql_queries prepare q True w)) = Some d \<and>
               page (snd (display_sql_queries prepare q True w)) =
                 page w @ [Header ''Run SQL Query'',
                           Dataframe \<lparr>df_cols = cs, df_rows = fetched cur\<rparr>])"
    using adhoc_read [OF assms] by blast
next
  show "\<forall>f cs rows. prepare q d = Inr (Select f) \<and> f [] d = Inr (cs, rows) \<longrightarrow>
            fst (display_sql_queries prepare q True w) = None \<and>
            store (snd (display_sql_queries prepare q True w)) = Some d \<and>
            page (snd (display_sql_queries prepare q True w)) =
              page w @ [Header ''Run SQL Query'', Dataframe \<lparr>df_cols = cs, df_rows = rows\<rparr>]"
    using adhoc_select [OF assms] by blast
next
  show "\<forall>s e. prepare q d = Inr s \<and> is_read s \<and> sqlite_exec s [] d = Inl e \<and> is_exception e \<longrightarrow>
            fst (display_sql_queries prepare q True w) = None \<and>
            store (snd (display_sql_queries prepare q True w)) = Some d \<and>
            page (snd (display_sql_queries prepare q True w)) =
              page w @ [Header ''Run SQL Query'',
                        ErrorBox (''Error: Execution failed on sql '' @ quoted q @ '': ''
                                    @ message e)]"
    using adhoc_read_raises [OF assms] by blast
qed

theorem adhoc_query_runner_witness:
  "store (snd (bootstrap first_run)) = Some seeded \<and>
   sample_prepare ''SELEC * FROM Claims'' seeded =
     Inl (OperationalError ''near SELEC: syntax error'') \<and>
   store (snd (display_sql_queries sample_prepare ''SELEC * FROM Claims'' True
                 (snd (bootstrap first_run)))) = Some seeded \<and>
   page (snd (display_sql_queries sample_prepare ''SELEC * FROM Claims'' True
                (snd (bootstrap first_run)))) =
     [Header ''Run SQL Query'',
      ErrorBox (''Error: Execution failed on sql '' @ quoted ''SELEC * FROM Claims''
                  @ '': near SELEC: syntax error'')] \<and>
   sample_prepare ''SELECT * FROM Claims'' seeded = Inr (SelectAll ''Claims'') \<and>
   page (snd (display_sql_queries sample_prepare ''SELECT * FROM Claims'' True
                (snd (bootstrap first_run)))) =
     [Header ''Run SQL Query'',
      Dataframe \<lparr>df_cols = [''Claim_ID'', ''Listing_ID'', ''Receiver_ID'', ''Claim_Date''],
                 df_rows = [[IntV 1, IntV 1, IntV 1, TextV ''2025-05-08'']]\<rparr>] \<and>
   page (snd (display_sql_queries sample_prepare
                ''SELECT Food_Name FROM FoodListings WHERE Quantity > 5'' True
                (snd (bootstrap first_run)))) =
     [Header ''Run SQL Query'',
      Dataframe \<lparr>df_cols = [''Food_Name''], df_rows = [[TextV ''Rice'']]\<rparr>]"
proof -
  let ?w = "snd (bootstrap first_run)"
  let ?bad = "''SELEC * FROM Claims''"
  let ?all = "''SELECT * FROM Claims''"
  let ?big = "''SELECT Food_Name FROM FoodListings WHERE Quantity > 5''"
  have h: "store ?w = Some seeded" by (simp add: seeded_world)
  have p0: "page ?w = []" by (simp add: seeded_world)
  have p1: "sample_prepare ?bad seeded = Inl (OperationalError ''near SELEC: syntax error'')"
    by (simp add: sample_prepare_def)
  have x1: "is_exception (OperationalError ''near SELEC: syntax error'')" by simp
  have p2: "sample_prepare ?all seeded = Inr (SelectAll ''Claims'')"
    by (simp add: sample_prepare_def)
  have r: "is_read (SelectAll ''Claims'')" by simp
  have x: "sqlite_exec (SelectAll ''Claims'') [] seeded =
      Inr (\<lparr>description = Some [''Claim_ID'', ''Listing_ID'', ''Receiver_ID'', ''Claim_Date''],
            fetched = [[IntV 1, IntV 1, IntV 1, TextV ''2025-05-08'']]\<rparr>, seeded)"
    by code_simp
  have p3: "sample_prepare ?big seeded = Inr (Select big_listings)"
    by (simp add: sample_prepare_def)
  have y: "big_listings [] seeded = Inr ([''Food_Name''], [[TextV ''Rice'']])"
    by code_simp
  note bad = adhoc_query_runner [OF h, of sample_prepare ?bad]
  note all = adhoc_query_runner [OF h, of sample_prepare ?all]
  note big = adhoc_query_runner [OF h, of sample_prepare ?big]
  from bad p1 x1 p0
  have a: "store (snd (display_sql_queries sample_prepare ?bad True ?w)) = Some seeded \<and>
     page (snd (display_sql_queries sample_prepare ?bad True ?w)) =
       [Header ''Run SQL Query'',
        ErrorBox (''Error: Execution failed on sql '' @ quoted ?bad
                    @ '': near SELEC: syntax error'')]"
    by (elim conjE) simp
  from all p2 r x p0
  have b: "page (snd (display_sql_queries sample_prepare ?all True ?w)) =
     [Header ''Run SQL Query'',
      Dataframe \<lparr>df_cols = [''Claim_ID'', ''Listing_ID'', ''Receiver_ID'', ''Claim_Date''],
                 df_rows = [[IntV 1, IntV 1, IntV 1, TextV ''2025-05-08'']]\<rparr>]"
    by (elim conjE) simp
  from big p3 y p0
  have c: "page (snd (display_sql_queries sample_prepare ?big True ?w)) =
     [Header ''Run SQL Query'',
      Dataframe \<lparr>df_cols = [''Food_Name''], df_rows = [[TextV ''Rice'']]\<rparr>]"
    by (elim conjE) simp
  from h p1 p2 a b c show ?thesis by simp
qed

section \<open>Distinct values (C4, C10)\<close>

text \<open>What the helper does for any engine, by what the engine makes of the query.\<close>

lemma get_unique_values_rejected:
  assumes "prepare (distinct_query t c) (database_of w) = Inl e"
  shows "get_unique_values_try prepare t c w = (Inl e, connect w)"
    and "get_unique_values_sql prepare t c w = (Inr [], connect w)"
  using assms
  by (simp_all add: get_unique_values_sql_def get_unique_values_try_def execute_query_sql_def
      database_of_connect)

lemma get_unique_values_raises:
  assumes "prepare (distinct_query t c) (database_of w) = Inr q"
    and "sqlite_exec q [] (database_of w) = Inl e"
  shows "get_unique_values_try prepare t c w = (Inl e, connect w)"
    and "get_unique_values_sql prepare t c w = (Inr [], connect w)"
  using assms
  by (simp_all add: get_unique_values_sql_def get_unique_values_try_def execute_query_sql_def
      execute_query_def database_of_connect)

lemma get_unique_values_returns:
  assumes "prepare (distinct_query t c) (database_of w) = Inr q"
    and "sqlite_exec q [] (database_of w) = Inr (cur, d')"
  shows "get_unique_values_try prepare t c w =
           (first_cells (fetched cur), w\<lparr>store := Some d'\<rparr>)"
  using assms
  by (simp add: get_unique_values_try_def execute_query_sql_def execute_query_def
      connect_def close_conn_def database_of_def)

lemma get_unique_values_column:
  assumes "prepare (distinct_query t c) (database_of w) = Inr (SelectDistinct c' t')"
    and "map_of (database_of w) t' = Some tb" and "col_index (cols tb) c' = Some i"
  shows "fst (get_unique_values_sql prepare t c w) = Inr (distinct_vals (column_vals tb i))"
proof -
  have "sqlite_exec (SelectDistinct c' t') [] (database_of w) =
      Inr (\<lparr>description = Some [c'],
            fetched = map (\<lambda>v. [v]) (distinct_vals (column_vals tb i))\<rparr>, database_of w)"
    using assms(2,3) by simp
  from get_unique_values_returns [of prepare t c w, OF assms(1) this]
  show ?thesis by (simp add: get_unique_values_sql_def first_cells_singletons)
qed

text \<open>
  Claim C4: for every table name and column name, the distinct-values helper returns the
  empty list, and raises nothing, when the table or the column does not exist and
  whenever the query raises; when the query succeeds it returns the distinct values of
  the column. The two names are spliced into the query text, so the statement is about
  every engine: an engine that rejects the text (as SQLite does when it finds no such
  table or column) or raises while running it gives the empty list; one that resolves
  the text to a column of a table of the store gives each value of that column once;
  and in general the result is the first cell of every row the query returns.
\<close>

theorem get_unique_values_fails_open:
  "(\<forall>e. prepare (distinct_query t c) (database_of w) = Inl e \<longrightarrow>
      get_unique_values_sql prepare t c w = (Inr [], connect w)) \<and>
   (\<forall>q e. prepare (distinct_query t c) (database_of w) = Inr q \<and>
        sqlite_exec q [] (database_of w) = Inl e \<longrightarrow>
      get_unique_values_sql prepare t c w = (Inr [], connect w)) \<and>
   (\<forall>t' c'. prepare (distinct_query t c) (database_of w) = Inr (SelectDistinct c' t') \<and>
        map_of (database_of w) t' = None \<longrightarrow>
      fst (get_unique_values_sql prepare t c w) = Inr []) \<and>
   (\<forall>t' c' tb. prepare (distinct_query t c) (database_of w) = Inr (SelectDistinct c' t') \<and>
        map_of (database_of w) t' = Some tb \<and> col_index (cols tb) c' = None \<longrightarrow>
      fst (get_unique_values_sql prepare t c w) = Inr []) \<and>
   (\<forall>t' c' tb i. prepare (distinct_query t c) (database_of w) = Inr (SelectDistinct c' t') \<and>
        map_of (database_of w) t' = Some tb \<and> col_index (cols tb) c' = Some i \<longrightarrow>
      (\<exists>vs. fst (get_unique_values_sql prepare t c w) = Inr vs \<and> distinct vs \<and>
         set vs = set (column_vals tb i))) \<and>
   (\<forall>q cur d' vs. prepare (distinct_query t c) (database_of w) = Inr q \<and>
        sqlite_exec q [] (database_of w) = Inr (cur, d') \<and> first_cells (fetched cur) = Inr vs \<longrightarrow>
      fst (get_unique_values_sql prepare t c w) = Inr vs)"
proof (intro conjI allI impI)
  fix e assume "prepare (distinct_query t c) (database_of w) = Inl e"
  then show "get_unique_values_sql prepare t c w = (Inr [], connect w)"
    by (rule get_unique_values_rejected)
next
  fix q e
  assume "prepare (distinct_query t c) (database_of w) = Inr q \<and>
        sqlite_exec q [] (database_of w) = Inl e"
  then show "get_unique_values_sql prepare t c w = (Inr [], connect w)"
    using get_unique_values_raises(2) by blast
next
  fix t' c'
  assume a: "prepare (distinct_query t c) (database_of w) = Inr (SelectDistinct c' t') \<and>
        map_of (database_of w) t' = None"
  then have "sqlite_exec (SelectDistinct c' t') [] (database_of w) =
      Inl (OperationalError (''no such table: '' @ t'))"
    by simp
  with a have "get_unique_values_sql prepare t c w = (Inr [], connect w)"
    using get_unique_values_raises(2) by blast
  then show "fst (get_unique_values_sql prepare t c w) = Inr []" by simp
next
  fix t' c' tb
  assume a: "prepare (distinct_query t c) (database_of w) = Inr (SelectDistinct c' t') \<and>
        map_of (database_of w) t' = Some tb \<and> col_index (cols tb) c' = None"
  then have "sqlite_exec (SelectDistinct c' t') [] (database_of w) =
      Inl (OperationalError (''no such column: '' @ c'))"
    by simp
  with a have "get_unique_values_sql prepare t c w = (Inr [], connect w)"
    using get_unique_values_raises(2) by blast
  then show "fst (get_unique_values_sql prepare t c w) = Inr []" by simp
next
  fix t' c' tb i
  assume "prepare (distinct_query t c) (database_of w) = Inr (SelectDistinct c' t') \<and>
        map_of (database_of w) t' = Some tb \<and> col_index (cols tb) c' = Some i"
  then have "fst (get_unique_values_sql prepare t c w) = Inr (distinct_vals (column_vals tb i))"
    using get_unique_values_column by blast
  then show "\<exists>vs. fst (get_unique_values_sql prepare t c w) = Inr vs \<and> distinct vs \<and>
         set vs = set (column_vals tb i)"
    by (simp add: distinct_vals_set distinct_vals_distinct)
next
  fix q cur d' vs
  assume a: "prepare (distinct_query t c) (database_of w) = Inr q \<and>
        sqlite_exec q [] (database_of w) = Inr (cur, d') \<and> first_cells (fetched cur) = Inr vs"
  then have "get_unique_values_try prepare t c w = (first_cells (fetched cur), w\<lparr>store := Some d'\<rparr>)"
    using get_unique_values_returns by blast
  with a show "fst (get_unique_values_sql prepare t c w) = Inr vs"
    by (simp add: get_unique_values_sql_def)
qed

theorem get_unique_values_fails_open_witness:
  "sample_prepare (distinct_query ''Donors'' ''Name'') seeded =
     Inl (OperationalError ''no such table: Donors'') \<and>
   fst (get_unique_values_sql sample_prepare ''Donors'' ''Name'' (snd (bootstrap first_run))) = Inr [] \<and>
   sample_prepare (distinct_query ''providers'' ''type'') seeded =
     Inr (SelectDistinct ''Type'' ''Providers'') \<and>
   (\<exists>vs. fst (get_unique_values_sql sample_prepare ''providers'' ''type''
                  (snd (bootstrap first_run))) = Inr vs \<and>
      distinct vs \<and> set vs = {TextV ''Restaurant'', TextV ''Supermarket''})"
proof -
  let ?w = "snd (bootstrap first_run)"
  let ?tb = "\<lparr>cols = frame_schema providers, trows = df_rows providers\<rparr>"
  have s: "database_of ?w = seeded" by (simp add: seeded_world database_of_def)
  have a: "sample_prepare (distinct_query ''Donors'' ''Name'') seeded =
      Inl (OperationalError ''no such table: Donors'')"
    by (simp add: sample_prepare_def distinct_query_def)
  have r: "sample_prepare (distinct_query ''providers'' ''type'') seeded =
      Inr (SelectDistinct ''Type'' ''Providers'')"
    by (simp add: sample_prepare_def distinct_query_def)
  have b: "map_of seeded ''Providers'' = Some ?tb" by (simp add: seeded_def)
  have d: "col_index (cols ?tb) ''Type'' = Some 2" by code_simp
  have e: "set (column_vals ?tb 2) = {TextV ''Restaurant'', TextV ''Supermarket''}"
    by (simp add: column_vals_def providers_def cell_def)
  note donors = get_unique_values_fails_open [of sample_prepare "''Donors''" "''Name''" ?w]
  note types = get_unique_values_fails_open [of sample_prepare "''providers''" "''type''" ?w]
  from donors a s have 1: "fst (get_unique_values_sql sample_prepare ''Donors'' ''Name'' ?w) = Inr []"
    by (elim conjE) simp
  from types r b d s
  have "\<exists>vs. fst (get_unique_values_sql sample_prepare ''providers'' ''type'' ?w) = Inr vs \<and>
      distinct vs \<and> set vs = set (column_vals ?tb 2)"
    by (elim conjE) simp
  with e have 2: "\<exists>vs. fst (get_unique_values_sql sample_prepare ''providers'' ''type'' ?w) = Inr vs \<and>
      distinct vs \<and> set vs = {TextV ''Restaurant'', TextV ''Supermarket''}"
    by simp
  from a 1 r 2 show ?thesis by (intro conjI)
qed

text \<open>
  Claim C10: the distinct-values helper is total. For every table name and column
  name, and whatever the engine does with the query, it returns a list and propagates
  no exception: every error the body of its \<^verbatim>\<open>try\<close> raises, of whatever class, raised
  when the engine compiles the query, while it runs it, or when the rows are read,
  ends as the empty list.
\<close>

theorem get_unique_values_total:
  "(\<exists>vs w'. get_unique_values_sql prepare t c w = (Inr vs, w')) \<and>
   (\<exists>vs w'. get_unique_values t c w = (Inr vs, w')) \<and>
   (\<forall>e w'. get_unique_values_try prepare t c w = (Inl e, w') \<longrightarrow>
      get_unique_values_sql prepare t c w = (Inr [], w')) \<and>
   (\<forall>e. prepare (distinct_query t c) (database_of w) = Inl e \<longrightarrow>
      get_unique_values_try prepare t c w = (Inl e, connect w) \<and>
      get_unique_values_sql prepare t c w = (Inr [], connect w)) \<and>
   (\<forall>q e. prepare (distinct_query t c) (database_of w) = Inr q \<and>
        sqlite_exec q [] (database_of w) = Inl e \<longrightarrow>
      get_unique_values_try prepare t c w = (Inl e, connect w) \<and>
      get_unique_values_sql prepare t c w = (Inr [], connect w)) \<and>
   (\<forall>q cur d' e. prepare (distinct_query t c) (database_of w) = Inr q \<and>
        sqlite_exec q [] (database_of w) = Inr (cur, d') \<and> first_cells (fetched cur) = Inl e \<longrightarrow>
      fst (get_unique_values_try prepare t c w) = Inl e \<and>
      fst (get_unique_values_sql prepare t c w) = Inr [])"
proof -
  have total: "\<exists>vs w'. get_unique_values_sql p t c w = (Inr vs, w')" for p
  proof (cases "get_unique_values_try p t c w")
    case (Pair r w')
    show ?thesis
    proof (cases r)
      case (Inl e)
      with Pair have "get_unique_values_sql p t c w = (Inr [], w')"
        by (simp add: get_unique_values_sql_def)
      then show ?thesis by blast
    next
      case (Inr vs)
      with Pair have "get_unique_values_sql p t c w = (Inr vs, w')"
        by (simp add: get_unique_values_sql_def)
      then show ?thesis by blast
    qed
  qed
  have 1: "\<exists>vs w'. get_unique_values_sql prepare t c w = (Inr vs, w')" by (rule total)
  have 2: "\<exists>vs w'. get_unique_values t c w = (Inr vs, w')"
    unfolding get_unique_values_def by (rule total)
  have 3: "\<forall>e w'. get_unique_values_try prepare t c w = (Inl e, w') \<longrightarrow>
      get_unique_values_sql prepare t c w = (Inr [], w')"
    by (simp add: get_unique_values_sql_def)
  have 4: "\<forall>e. prepare (distinct_query t c) (database_of w) = Inl e \<longrightarrow>
      get_unique_values_try prepare t c w = (Inl e, connect w) \<and>
      get_unique_values_sql prepare t c w = (Inr [], connect w)"
    using get_unique_values_rejected by blast
  have 5: "\<forall>q e. prepare (distinct_query t c) (database_of w) = Inr q \<and>
        sqlite_exec q [] (database_of w) = Inl e \<longrightarrow>
      get_unique_values_try prepare t c w = (Inl e, connect w) \<and>
      get_unique_values_sql prepare t c w = (Inr [], connect w)"
    using get_unique_values_raises by blast
  have 6: "\<forall>q cur d' e. prepare (distinct_query t c) (database_of w) = Inr q \<and>
        sqlite_exec q [] (database_of w) = Inr (cur, d') \<and> first_cells (fetched cur) = Inl e \<longrightarrow>
      fst (get_unique_values_try prepare t c w) = Inl e \<and>
      fst (get_unique_values_sql prepare t c w) = Inr []"
  proof (intro allI impI)
    fix q cur d' e
    assume a: "prepare (distinct_query t c) (database_of w) = Inr q \<and>
        sqlite_exec q [] (database_of w) = Inr (cur, d') \<and> first_cells (fetched cur) = Inl e"
    then have "get_unique_values_try prepare t c w =
        (first_cells (fetched cur), w\<lparr>store := Some d'\<rparr>)"
      using get_unique_values_returns by blast
    with a show "fst (get_unique_values_try prepare t c w) = Inl e \<and>
        fst (get_unique_values_sql prepare t c w) = Inr []"
      by (simp add: get_unique_values_sql_def)
  qed
  from 1 2 3 4 5 6 show ?thesis by (intro conjI)
qed

theorem get_unique_values_total_witness:
  "get_unique_values_try not_a_database ''Providers'' ''Type'' (snd (bootstrap first_run)) =
     (Inl (DatabaseError ''file is not a database''), connect (snd (bootstrap first_run))) \<and>
   get_unique_values_sql not_a_database ''Providers'' ''Type'' (snd (bootstrap first_run)) =
     (Inr [], connect (snd (bootstrap first_run))) \<and>
   get_unique_values_try (\<lambda>sql d. Inl KeyboardInterrupt) ''Providers'' ''Type''
       (snd (bootstrap first_run)) =
     (Inl KeyboardInterrupt, connect (snd (bootstrap first_run))) \<and>
   get_unique_values_sql (\<lambda>sql d. Inl KeyboardInterrupt) ''Providers'' ''Type''
       (snd (bootstrap first_run)) =
     (Inr [], connect (snd (bootstrap first_run))) \<and>
   fst (get_unique_values_try (\<lambda>sql d. Inr (Select (\<lambda>ps d. Inr ([], [[]]))))
          ''Providers'' ''Type'' (snd (bootstrap first_run))) =
     Inl (IndexError ''tuple index out of range'') \<and>
   fst (get_unique_values_sql (\<lambda>sql d. Inr (Select (\<lambda>ps d. Inr ([], [[]]))))
          ''Providers'' ''Type'' (snd (bootstrap first_run))) = Inr []"
proof -
  let ?w = "snd (bootstrap first_run)"
  let ?kb = "\<lambda>(sql::string) (d::database). (Inl KeyboardInterrupt :: error + stmt)"
  let ?sel = "Select (\<lambda>ps d. Inr ([], [[]]))"
  let ?rows = "\<lambda>(sql::string) (d::database). (Inr ?sel :: error + stmt)"
  have a: "not_a_database (distinct_query ''Providers'' ''Type'') (database_of ?w) =
      Inl (DatabaseError ''file is not a database'')"
    by (simp add: not_a_database_def)
  have x: "sqlite_exec ?sel [] (database_of ?w) =
      Inr (\<lparr>description = Some [], fetched = [[]]\<rparr>, database_of ?w)"
    by simp
  have f: "first_cells (fetched \<lparr>description = Some [], fetched = [[]]\<rparr>) =
      Inl (IndexError ''tuple index out of range'')"
    by simp
  note broken = get_unique_values_total [of not_a_database "''Providers''" "''Type''" ?w]
  note interrupted = get_unique_values_total [of ?kb "''Providers''" "''Type''" ?w]
  note short = get_unique_values_total [of ?rows "''Providers''" "''Type''" ?w]
  from broken a
  have 1: "get_unique_values_try not_a_database ''Providers'' ''Type'' ?w =
        (Inl (DatabaseError ''file is not a database''), connect ?w) \<and>
      get_unique_values_sql not_a_database ''Providers'' ''Type'' ?w = (Inr [], connect ?w)"
    by (elim conjE) simp
  from interrupted
  have 2: "get_unique_values_try ?kb ''Providers'' ''Type'' ?w = (Inl KeyboardInterrupt, connect ?w) \<and>
      get_unique_values_sql ?kb ''Providers'' ''Type'' ?w = (Inr [], connect ?w)"
    by (elim conjE) simp
  from short x f
  have 3: "fst (get_unique_values_try ?rows ''Providers'' ''Type'' ?w) =
        Inl (IndexError ''tuple index out of range'') \<and>
      fst (get_unique_values_sql ?rows ''Providers'' ''Type'' ?w) = Inr []"
    by (elim conjE) blast
  from 1 2 3 show ?thesis by simp
qed

section \<open>The chart (C5)\<close>

text \<open>With no listing, the chart view shows the placeholder warning.\<close>

lemma chart_without_listings:
  assumes "map_of (database_of w) ''FoodListings'' = Some tb"
    and "col_index (cols tb) ''Food_Type'' \<noteq> None" and "col_index (cols tb) ''Quantity'' \<noteq> None"
    and "trows tb = []"
  shows "fst (display_food_wastage_by_type_chart w) = None \<and>
         page (snd (display_food_wastage_by_type_chart w)) = page w @ [Warning ''No data available.'']"
  using assms
  by (auto simp: display_food_wastage_by_type_chart_def read_sql_def connect_def close_conn_def
      database_of_def render_def group_sum_def column_vals_def distinct_vals_def)

text \<open>
  Claim C5: the chart view sums Quantity by Food_Type in one aggregate query (over the
  seed data the groups are (Grain, 10) and (Bakery, 5)), renders a bar chart of it, and
  shows a warning when there is no group. On the seeded store the query gives the two
  groups, and the view then raises \<^verbatim>\<open>NameError\<close> and renders nothing.
\<close>

theorem chart_on_seed_data_raises:
  "(\<exists>groups. fst (execute_query
                     (SelectSumGroupBy ''Food_Type'' ''Quantity'' ''Total'' ''FoodListings'') []
                     (snd (bootstrap first_run))) = Inr groups \<and>
      length groups = 2 \<and>
      set groups = {[TextV ''Grain'', IntV 10], [TextV ''Bakery'', IntV 5]}) \<and>
   fst (display_food_wastage_by_type_chart (snd (bootstrap first_run))) =
     Some (NameError ''name plt is not defined'') \<and>
   page (snd (display_food_wastage_by_type_chart (snd (bootstrap first_run)))) = [] \<and>
   fst (main sample_prepare FoodWastageChart (snd (main sample_prepare Home first_run))) =
     Some (NameError ''name plt is not defined'')"
proof -
  have q: "fst (execute_query
                  (SelectSumGroupBy ''Food_Type'' ''Quantity'' ''Total'' ''FoodListings'') []
                  (snd (bootstrap first_run))) =
      Inr [[TextV ''Grain'', IntV 10], [TextV ''Bakery'', IntV 5]]"
    unfolding seeded_world by code_simp
  have g: "\<exists>groups. fst (execute_query
                     (SelectSumGroupBy ''Food_Type'' ''Quantity'' ''Total'' ''FoodListings'') []
                     (snd (bootstrap first_run))) = Inr groups \<and>
      length groups = 2 \<and>
      set groups = {[TextV ''Grain'', IntV 10], [TextV ''Bakery'', IntV 5]}"
    unfolding q by simp
  have r: "fst (display_food_wastage_by_type_chart (snd (bootstrap first_run))) =
      Some (NameError ''name plt is not defined'') \<and>
    page (snd (display_food_wastage_by_type_chart (snd (bootstrap first_run)))) = [] \<and>
    fst (main sample_prepare FoodWastageChart (snd (main sample_prepare Home first_run))) =
      Some (NameError ''name plt is not defined'')"
    unfolding seeded_world by code_simp
  from g r show ?thesis by (rule conjI)
qed

section \<open>Launching again (C6)\<close>

text \<open>
  Claim C6: when the store file already exists, the bootstrap changes nothing: every
  row of every table is as before. In particular running it a second time changes
  nothing.
\<close>

theorem bootstrap_existing_store:
  "(\<forall>d. store w = Some d \<longrightarrow>
      bootstrap w = (None, w) \<and> store (snd (main prepare Home w)) = Some d) \<and>
   bootstrap (snd (bootstrap w)) = (None, snd (bootstrap w))"
proof -
  have a: "bootstrap w = (None, w) \<and> store (snd (main prepare Home w)) = Some d"
    if "store w = Some d" for d
    using that by (simp add: bootstrap_def main_def render_def)
  have b: "bootstrap (snd (bootstrap w)) = (None, snd (bootstrap w))"
  proof (cases "store w")
    case None
    then show ?thesis by (simp add: bootstrap_fresh) (simp add: bootstrap_def)
  next
    case (Some d)
    then show ?thesis by (simp add: bootstrap_def)
  qed
  from a b show ?thesis by blast
qed

theorem bootstrap_existing_store_witness:
  "store (snd (bootstrap first_run)) = Some seeded \<and>
   bootstrap (snd (bootstrap first_run)) = (None, snd (bootstrap first_run)) \<and>
   store (snd (main sample_prepare Home (snd (bootstrap first_run)))) = Some seeded"
proof -
  have h: "store (snd (bootstrap first_run)) = Some seeded" by (simp add: seeded_world)
  from bootstrap_existing_store [of "snd (bootstrap first_run)" sample_prepare] h
  have "bootstrap (snd (bootstrap first_run)) = (None, snd (bootstrap first_run)) \<and>
        store (snd (main sample_prepare Home (snd (bootstrap first_run)))) = Some seeded"
    by (elim conjE) simp
  with h show ?thesis by (intro conjI) simp_all
qed

section \<open>Connections (C7)\<close>

text \<open>
  \<^verbatim>\<open>execute_query\<close> closes its connection when the statement succeeds, and so does the
  chart view once its query has returned.
\<close>

lemma execute_query_closes:
  "execute_query q ps w = (Inr rs, w') \<Longrightarrow> open_conns w' = open_conns w"
  by (auto simp: execute_query_def connect_def close_conn_def Let_def
      split: if_splits sum.splits prod.splits)

lemma chart_closes:
  "display_food_wastage_by_type_chart w = (r, w') \<Longrightarrow>
   \<forall>m. r \<noteq> Some (DatabaseError m) \<Longrightarrow> open_conns w' = open_conns w"
  by (auto simp: display_food_wastage_by_type_chart_def read_sql_def connect_def close_conn_def
      render_def execution_failed_def Let_def split: if_splits sum.splits prod.splits option.splits)

text \<open>
  Claim C7: every user action opens a connection, runs its statements and closes the
  connection before it renders, so that none stays open afterwards. The table dump does
  not: after the first launch, with no connection open, dumping Providers succeeds and
  leaves the connection it opened unclosed.
\<close>

theorem table_dump_leaves_connection_open:
  "open_conns (snd (bootstrap first_run)) = 0 \<and>
   fst (display_data ''Providers'' (snd (bootstrap first_run))) = None \<and>
   open_conns (snd (display_data ''Providers'' (snd (bootstrap first_run)))) = 1 \<and>
   open_conns (snd (display_food_listings (snd (bootstrap first_run)))) = 1 \<and>
   open_conns (snd (display_sql_queries sample_prepare ''SELECT * FROM Claims'' True
                      (snd (bootstrap first_run)))) = 1 \<and>
   open_conns (snd (main sample_prepare Home first_run)) = 0 \<and>
   open_conns (snd (main sample_prepare (ViewData 0) (snd (main sample_prepare Home first_run)))) = 1"
  unfolding seeded_world by code_simp

section \<open>The table dump (C8)\<close>

text \<open>
  Claim C8: for each of the four table names offered by the view (Providers, Receivers,
  FoodListings, Claims), the table dump shows every row of that table, in the table's
  columns, with no filter and no limit.
\<close>

theorem table_dump_all_rows:
  assumes "t \<in> set view_tables" and "store w = Some d" and "map_of d t = Some tb"
  shows "fst (display_data t w) = None \<and>
         page (snd (display_data t w)) =
           page w @ [Dataframe \<lparr>df_cols = map cname (cols tb), df_rows = trows tb\<rparr>] \<and>
         store (snd (display_data t w)) = Some d"
  using assms by (simp add: display_data_def read_sql_def connect_def database_of_def render_def)

theorem table_dump_all_rows_witness:
  "''Claims'' \<in> set view_tables \<and> store (snd (bootstrap first_run)) = Some seeded \<and>
   fst (display_data ''Claims'' (snd (bootstrap first_run))) = None \<and>
   page (snd (display_data ''Claims'' (snd (bootstrap first_run)))) =
     [Dataframe \<lparr>df_cols = [''Claim_ID'', ''Listing_ID'', ''Receiver_ID'', ''Claim_Date''],
                 df_rows = [[IntV 1, IntV 1, IntV 1, TextV ''2025-05-08'']]\<rparr>]"
proof -
  let ?w = "snd (bootstrap first_run)"
  let ?tb = "\<lparr>cols = frame_schema claims, trows = df_rows claims\<rparr>"
  have v: "''Claims'' \<in> set view_tables" by (simp add: view_tables_def)
  have h: "store ?w = Some seeded" by (simp add: seeded_world)
  have p: "page ?w = []" by (simp add: seeded_world)
  have m: "map_of seeded ''Claims'' = Some ?tb" by (simp add: seeded_def)
  have c: "map cname (cols ?tb) = [''Claim_ID'', ''Listing_ID'', ''Receiver_ID'', ''Claim_Date'']"
    by code_simp
  have r: "trows ?tb = [[IntV 1, IntV 1, IntV 1, TextV ''2025-05-08'']]"
    by (simp add: claims_def)
  from table_dump_all_rows [OF v h m] p c r
  have "fst (display_data ''Claims'' ?w) = None \<and>
        page (snd (display_data ''Claims'' ?w)) =
          [Dataframe \<lparr>df_cols = [''Claim_ID'', ''Listing_ID'', ''Receiver_ID'', ''Claim_Date''],
                      df_rows = [[IntV 1, IntV 1, IntV 1, TextV ''2025-05-08'']]\<rparr>]"
    by simp
  with v h show ?thesis by (intro conjI) simp_all
qed

section \<open>The options of the form (C9)\<close>

text \<open>
  Claim C9: in the Add Food Listing form, the food-type options are the distinct
  Food_Type values of FoodListings, or Vegetable and Grain when there is none; the
  meal-type options are the distinct Meal_Type values, or Breakfast, Lunch and Dinner
  when there is none.
\<close>

theorem listing_form_options:
  "(\<forall>tb i. map_of (database_of w) ''FoodListings'' = Some tb \<and>
        col_index (cols tb) ''Food_Type'' = Some i \<longrightarrow>
      (\<exists>opts. fst (food_type_options w) = Inr opts \<and>
         (if trows tb = [] then opts = [TextV ''Vegetable'', TextV ''Grain'']
          else distinct opts \<and> set opts = set (column_vals tb i)))) \<and>
   (\<forall>tb j. map_of (database_of w) ''FoodListings'' = Some tb \<and>
        col_index (cols tb) ''Meal_Type'' = Some j \<longrightarrow>
      (\<exists>opts. fst (meal_type_options w) = Inr opts \<and>
         (if trows tb = [] then opts = [TextV ''Breakfast'', TextV ''Lunch'', TextV ''Dinner'']
          else distinct opts \<and> set opts = set (column_vals tb j)))) \<and>
   (fst (get_unique_values ''FoodListings'' ''Food_Type'' w) = Inr [] \<longrightarrow>
      fst (food_type_options w) = Inr [TextV ''Vegetable'', TextV ''Grain'']) \<and>
   (fst (get_unique_values ''FoodListings'' ''Meal_Type'' w) = Inr [] \<longrightarrow>
      fst (meal_type_options w) = Inr [TextV ''Breakfast'', TextV ''Lunch'', TextV ''Dinner''])"
proof (intro conjI allI impI)
  fix tb i
  assume "map_of (database_of w) ''FoodListings'' = Some tb \<and>
        col_index (cols tb) ''Food_Type'' = Some i"
  then have "get_unique_values ''FoodListings'' ''Food_Type'' w =
      (Inr (distinct_vals (column_vals tb i)), w\<lparr>store := Some (database_of w)\<rparr>)"
    by (simp add: get_unique_values_found)
  then show "\<exists>opts. fst (food_type_options w) = Inr opts \<and>
         (if trows tb = [] then opts = [TextV ''Vegetable'', TextV ''Grain'']
          else distinct opts \<and> set opts = set (column_vals tb i))"
    by (simp add: food_type_options_def py_or_def distinct_vals_empty distinct_vals_set
        distinct_vals_distinct column_vals_def)
next
  fix tb j
  assume "map_of (database_of w) ''FoodListings'' = Some tb \<and>
        col_index (cols tb) ''Meal_Type'' = Some j"
  then have "get_unique_values ''FoodListings'' ''Meal_Type'' w =
      (Inr (distinct_vals (column_vals tb j)), w\<lparr>store := Some (database_of w)\<rparr>)"
    by (simp add: get_unique_values_found)
  then show "\<exists>opts. fst (meal_type_options w) = Inr opts \<and>
         (if trows tb = [] then opts = [TextV ''Breakfast'', TextV ''Lunch'', TextV ''Dinner'']
          else distinct opts \<and> set opts = set (column_vals tb j))"
    by (simp add: meal_type_options_def py_or_def distinct_vals_empty distinct_vals_set
        distinct_vals_distinct column_vals_def)
next
  assume "fst (get_unique_values ''FoodListings'' ''Food_Type'' w) = Inr []"
  then show "fst (food_type_options w) = Inr [TextV ''Vegetable'', TextV ''Grain'']"
    by (cases "get_unique_values ''FoodListings'' ''Food_Type'' w")
      (simp add: food_type_options_def py_or_def)
next
  assume "fst (get_unique_values ''FoodListings'' ''Meal_Type'' w) = Inr []"
  then show "fst (meal_type_options w) = Inr [TextV ''Breakfast'', TextV ''Lunch'', TextV ''Dinner'']"
    by (cases "get_unique_values ''FoodListings'' ''Meal_Type'' w")
      (simp add: meal_type_options_def py_or_def)
qed

theorem listing_form_options_witness:
  "(\<exists>opts. fst (food_type_options (snd (bootstrap first_run))) = Inr opts \<and> distinct opts \<and>
      set opts = {TextV ''Grain'', TextV ''Bakery''}) \<and>
   fst (get_unique_values ''FoodListings'' ''Meal_Type'' (snd (create_database first_run))) = Inr [] \<and>
   fst (meal_type_options (snd (create_database first_run))) =
     Inr [TextV ''Breakfast'', TextV ''Lunch'', TextV ''Dinner'']"
proof -
  let ?w = "snd (bootstrap first_run)"
  let ?e = "snd (create_database first_run)"
  let ?tb = "\<lparr>cols = frame_schema food_listings, trows = df_rows food_listings\<rparr>"
  have b: "map_of (database_of ?w) ''FoodListings'' = Some ?tb"
    unfolding seeded_world by (simp add: database_of_def seeded_def)
  have i: "col_index (cols ?tb) ''Food_Type'' = Some 7" by code_simp
  have n: "trows ?tb \<noteq> []" by (simp add: food_listings_def)
  have v: "set (column_vals ?tb 7) = {TextV ''Grain'', TextV ''Bakery''}"
    by (simp add: column_vals_def food_listings_def cell_def)
  from listing_form_options [of ?w] b i n
  have "\<exists>opts. fst (food_type_options ?w) = Inr opts \<and> distinct opts \<and>
      set opts = set (column_vals ?tb 7)"
    by (elim conjE) simp
  with v have 1: "\<exists>opts. fst (food_type_options ?w) = Inr opts \<and> distinct opts \<and>
      set opts = {TextV ''Grain'', TextV ''Bakery''}"
    by simp
  have g: "fst (get_unique_values ''FoodListings'' ''Meal_Type'' ?e) = Inr []"
    by code_simp
  from listing_form_options [of ?e] g
  have 2: "fst (meal_type_options ?e) = Inr [TextV ''Breakfast'', TextV ''Lunch'', TextV ''Dinner'']"
    by (elim conjE) simp
  from 1 g 2 show ?thesis by (intro conjI)
qed

end
